theory Spec2Isabelle
  imports Main "HOL-Library.AList" "HOL-Library.List_Lexorder" "HOL-Library.Char_ord"
begin

section \<open>Python values and exceptions\<close>

text \<open>
  The values that flow through \<^verbatim>\<open>pgi/overrides/__init__.py\<close>. An opaque external object
  (an introspected module, a class or function exported by an override module) is
  \<open>PObj i m\<close>: \<open>i\<close> is its identity and \<open>m\<close> its \<^verbatim>\<open>__module__\<close> attribute when it has one
  that is a string. A proxy module created by \<^verbatim>\<open>load\<close> is \<open>PProxy i\<close>, an index into the
  store of proxies.
\<close>

datatype pyval =
    PNone
  | PBool bool
  | PInt int
  | PStr string
  | PTuple "pyval list"
  | PList "pyval list"
  | PObj nat "string option"
  | PProxy nat

datatype exc_type =
    BaseException | Exception | KeyboardInterrupt | SystemExit
  | ImportError | ModuleNotFoundError
  | AttributeError | AssertionError | TypeError | IndexError | ValueError
  | RuntimeError | RecursionError
  | UserError string

text \<open>The classes an exception class inherits from, itself included.\<close>

fun mro :: "exc_type \<Rightarrow> exc_type list" where
  "mro BaseException = [BaseException]"
| "mro KeyboardInterrupt = [KeyboardInterrupt, BaseException]"
| "mro SystemExit = [SystemExit, BaseException]"
| "mro Exception = [Exception, BaseException]"
| "mro ModuleNotFoundError = [ModuleNotFoundError, ImportError, Exception, BaseException]"
| "mro RecursionError = [RecursionError, RuntimeError, Exception, BaseException]"
| "mro t = [t, Exception, BaseException]"

datatype exn = Exc (exc_class: exc_type) (exc_args: "pyval list")

definition isinstance :: "exn \<Rightarrow> exc_type \<Rightarrow> bool" where
  "isinstance e t = (t \<in> set (mro (exc_class e)))"

text \<open>Truth value testing. An opaque object is true, as Python objects are by default.\<close>

fun truthy :: "pyval \<Rightarrow> bool" where
  "truthy PNone = False"
| "truthy (PBool b) = b"
| "truthy (PInt i) = (i \<noteq> 0)"
| "truthy (PStr s) = (s \<noteq> [])"
| "truthy (PTuple xs) = (xs \<noteq> [])"
| "truthy (PList xs) = (xs \<noteq> [])"
| "truthy (PObj i m) = True"
| "truthy (PProxy i) = True"

text \<open>
  \<^verbatim>\<open>ret[i]\<close> for a non-negative index, \<^verbatim>\<open>len(ret)\<close> and \<^verbatim>\<open>ret[i:]\<close>. Tuples, lists and
  strings are the sequences; on anything else, an opaque object included, the operation
  raises \<^verbatim>\<open>TypeError\<close>. Exceptions that Python itself raises carry no arguments here.
\<close>

definition index_list :: "'a list \<Rightarrow> nat \<Rightarrow> exn + 'a" where
  "index_list xs i = (if i < length xs then Inr (xs ! i) else Inl (Exc IndexError []))"

fun py_getitem :: "pyval \<Rightarrow> nat \<Rightarrow> exn + pyval" where
  "py_getitem (PTuple xs) i = index_list xs i"
| "py_getitem (PList xs) i = index_list xs i"
| "py_getitem (PStr s) i = map_sum id (\<lambda>c. PStr [c]) (index_list s i)"
| "py_getitem v i = Inl (Exc TypeError [])"

fun py_len :: "pyval \<Rightarrow> exn + nat" where
  "py_len (PTuple xs) = Inr (length xs)"
| "py_len (PList xs) = Inr (length xs)"
| "py_len (PStr s) = Inr (length s)"
| "py_len v = Inl (Exc TypeError [])"

fun py_slice_from :: "pyval \<Rightarrow> nat \<Rightarrow> exn + pyval" where
  "py_slice_from (PTuple xs) i = Inr (PTuple (drop i xs))"
| "py_slice_from (PList xs) i = Inr (PList (drop i xs))"
| "py_slice_from (PStr s) i = Inr (PStr (drop i s))"
| "py_slice_from v i = Inl (Exc TypeError [])"

section \<open>strip_boolean_result\<close>

text \<open>
  \<^verbatim>\<open>strip_boolean_result(method, exc_type=None, exc_str=None, fail_ret=None)\<close> returns
  \<^verbatim>\<open>wrapped\<close>; the model is \<^verbatim>\<open>wrapped\<close> applied to the arguments of one call. The wrapped
  method is the function from its arguments to what it returns or raises. \<^verbatim>\<open>exc_type\<close>
  is an exception class or \<^verbatim>\<open>None\<close>; a class is true.
\<close>

definition strip_boolean_result ::
  "('args \<Rightarrow> exn + pyval) \<Rightarrow> exc_type option \<Rightarrow> pyval \<Rightarrow> pyval \<Rightarrow> 'args \<Rightarrow> exn + pyval" where
  "strip_boolean_result method exc_type exc_str fail_ret args =
     (case method args of
        Inl e \<Rightarrow> Inl e
      | Inr ret \<Rightarrow>
          (case py_getitem ret 0 of
             Inl e \<Rightarrow> Inl e
           | Inr flag \<Rightarrow>
               if truthy flag then
                 (case py_len ret of
                    Inl e \<Rightarrow> Inl e
                  | Inr n \<Rightarrow> if n = 2 then py_getitem ret 1 else py_slice_from ret 1)
               else
                 (case exc_type of
                    Some t \<Rightarrow>
                      Inl (Exc t [if truthy exc_str then exc_str else PStr ''call failed''])
                  | None \<Rightarrow> Inr fail_ret)))"

section \<open>Warnings and dictionaries\<close>

text \<open>
  A call of \<^verbatim>\<open>warnings.warn(message, category, stacklevel=n)\<close> is recorded as a value: the
  model lists the calls made, in order. What the warnings filter of Python does with a call
  afterwards (print it, drop it, turn it into an error) is outside this module.
  \<^verbatim>\<open>PyGIDeprecationWarning\<close> is the class that \<^verbatim>\<open>pgi.util\<close> declares.
\<close>

datatype category = PyGIDeprecationWarning | Category string

datatype warning = Warning (w_message: string) (w_category: category) (w_stacklevel: int)

fun join :: "string \<Rightarrow> string list \<Rightarrow> string" where
  "join sep [] = []"
| "join sep [x] = x"
| "join sep (x # y # ys) = x @ sep @ join sep (y # ys)"

text \<open>
  A Python dictionary with string keys is an association list in insertion order:
  \<open>AList.update\<close> overwrites the value of a key in place or appends a new key, as
  \<^verbatim>\<open>d[k] = v\<close> does, and \<open>AList.delete\<close> removes a key. \<open>dict_getitem\<close> is \<^verbatim>\<open>d[k]\<close> for a
  key that is in \<open>d\<close>: the source reads only keys it has just tested or has taken from
  the same dictionary, so the \<^verbatim>\<open>KeyError\<close> of a missing key does not arise.
\<close>

type_synonym 'v dict = "(string \<times> 'v) list"

definition dict_contains :: "'v dict \<Rightarrow> string \<Rightarrow> bool" where
  "dict_contains d k = (map_of d k \<noteq> None)"

definition dict_getitem :: "'v dict \<Rightarrow> string \<Rightarrow> 'v" where
  "dict_getitem d k = the (map_of d k)"

definition dict_update :: "'v dict \<Rightarrow> (string \<times> 'v) list \<Rightarrow> 'v dict" where
  "dict_update d ps = foldl (\<lambda>acc (k, v). AList.update k v acc) d ps"

section \<open>deprecated_init\<close>

text \<open>The three messages, with the \<^verbatim>\<open>%s\<close> filled in.\<close>

definition positional_message :: "string \<Rightarrow> string" where
  \<open>positional_message names =
     ''Using positional arguments with the GObject constructor has been deprecated. ''
     @ ''Please specify keyword(s) for "'' @ names @ ''" or use a class specific constructor. ''
     @ ''See: https://wiki.gnome.org/PyGObject/InitializerDeprecations''\<close>

definition alias_message :: "string \<Rightarrow> string \<Rightarrow> string" where
  \<open>alias_message aliases keys =
     ''The keyword(s) "'' @ aliases @ ''" have been deprecated in favor of "'' @ keys
     @ ''" respectively. ''
     @ ''See: https://wiki.gnome.org/PyGObject/InitializerDeprecations''\<close>

definition defaults_message :: "string \<Rightarrow> string" where
  \<open>defaults_message pairs =
     ''Initializer is relying on deprecated non-standard ''
     @ ''defaults. Please update to explicitly use: '' @ pairs @ '' ''
     @ ''See: https://wiki.gnome.org/PyGObject/InitializerDeprecations''\<close>

text \<open>
  The loops of \<^verbatim>\<open>new_init\<close> over \<^verbatim>\<open>deprecated_aliases.items()\<close>, over
  \<^verbatim>\<open>deprecated_defaults.items()\<close> and over \<^verbatim>\<open>ignore\<close>.
\<close>

fun alias_loop :: "(string \<times> string) list \<Rightarrow> 'v dict \<Rightarrow> string list \<Rightarrow> 'v dict \<times> string list" where
  "alias_loop [] new_kwargs aliases_used = (new_kwargs, aliases_used)"
| "alias_loop ((key, alias) # rest) new_kwargs aliases_used =
     (if dict_contains new_kwargs alias
      then alias_loop rest
             (AList.update key (dict_getitem new_kwargs alias) (AList.delete alias new_kwargs))
             (aliases_used @ [key])
      else alias_loop rest new_kwargs aliases_used)"

fun defaults_loop :: "'v dict \<Rightarrow> (string \<times> 'v) list \<Rightarrow> 'v dict \<Rightarrow> string list \<Rightarrow> 'v dict \<times> string list" where
  "defaults_loop deprecated_defaults [] new_kwargs defaults_used = (new_kwargs, defaults_used)"
| "defaults_loop deprecated_defaults ((key, val) # rest) new_kwargs defaults_used =
     (if \<not> dict_contains new_kwargs key
      then defaults_loop deprecated_defaults rest
             (AList.update key (dict_getitem deprecated_defaults key) new_kwargs)
             (defaults_used @ [key])
      else defaults_loop deprecated_defaults rest new_kwargs defaults_used)"

fun ignore_loop :: "string list \<Rightarrow> 'v dict \<Rightarrow> 'v dict" where
  "ignore_loop [] new_kwargs = new_kwargs"
| "ignore_loop (key # rest) new_kwargs =
     ignore_loop rest (if dict_contains new_kwargs key then AList.delete key new_kwargs else new_kwargs)"

text \<open>
  The call \<^verbatim>\<open>super_init_func(self, **new_kwargs)\<close>: the receiver, the positional arguments
  after it and the keyword arguments.
\<close>

record ('s, 'v) init_call =
  recv :: 's
  pos_args :: "'v list"
  kw_args :: "'v dict"

text \<open>
  \<^verbatim>\<open>deprecated_init(...)\<close> returns \<^verbatim>\<open>new_init\<close>; the model is \<^verbatim>\<open>new_init\<close> applied to
  \<^verbatim>\<open>self\<close>, \<^verbatim>\<open>args\<close> and \<^verbatim>\<open>kwargs\<close>, and it yields the warnings in the order they are
  issued and what the wrapped initializer returns. \<open>str_of\<close> is Python's \<^verbatim>\<open>str\<close> on the
  values, which \<^verbatim>\<open>'%s=%s'\<close> applies to a default.
\<close>

definition deprecated_init ::
  "('v \<Rightarrow> string) \<Rightarrow> (('s, 'v) init_call \<Rightarrow> 'r) \<Rightarrow> string list \<Rightarrow> string list \<Rightarrow>
   string dict \<Rightarrow> 'v dict \<Rightarrow> category \<Rightarrow> int \<Rightarrow> 's \<Rightarrow> 'v list \<Rightarrow> 'v dict \<Rightarrow> warning list \<times> 'r" where
  "deprecated_init str_of super_init_func arg_names ignore deprecated_aliases deprecated_defaults
       category stacklevel self args kwargs =
     (let (w1, kw0) =
            (if args \<noteq> []
             then ([Warning (positional_message (join '', '' (take (length args) arg_names)))
                      category stacklevel],
                   dict_update [] (zip arg_names args))
             else ([], []));
          kw1 = dict_update kw0 kwargs;
          (kw2, aliases_used) = alias_loop deprecated_aliases kw1 [];
          w2 = (if aliases_used \<noteq> []
                then [Warning (alias_message
                         (join '', '' (map (dict_getitem deprecated_aliases) (sort aliases_used)))
                         (join '', '' (sort aliases_used)))
                       category stacklevel]
                else []);
          (kw3, defaults_used) = defaults_loop deprecated_defaults deprecated_defaults kw2 [];
          w3 = (if defaults_used \<noteq> []
                then [Warning (defaults_message
                         (join '', '' (map (\<lambda>k. k @ ''='' @ str_of (dict_getitem deprecated_defaults k))
                                        (sort defaults_used))))
                       category stacklevel]
                else []);
          kw4 = ignore_loop ignore kw3
      in (w1 @ w2 @ w3, super_init_func \<lparr>recv = self, pos_args = [], kw_args = kw4\<rparr>))"

text \<open>Python's \<^verbatim>\<open>str\<close> on integers, for keyword values that are integers.\<close>

fun str_nat :: "nat \<Rightarrow> string" where
  "str_nat n = (if n < 10 then [''0123456789'' ! n] else str_nat (n div 10) @ [''0123456789'' ! (n mod 10)])"

definition str_int :: "int \<Rightarrow> string" where
  "str_int i = (if i < 0 then ''-'' @ str_nat (nat (- i)) else str_nat (nat i))"

section \<open>Proxy modules and deprecated attributes\<close>

text \<open>
  \<^verbatim>\<open>_DeprecatedAttribute\<close>: the attribute name, the value frozen at construction and the
  message of the \<^verbatim>\<open>PyGIDeprecationWarning\<close> instance built in \<^verbatim>\<open>__init__\<close>.
\<close>

record deprecated_attribute =
  d_attr :: string
  d_value :: pyval
  d_warning :: string

definition DeprecatedAttribute_init ::
  "string \<Rightarrow> string \<Rightarrow> pyval \<Rightarrow> string \<Rightarrow> deprecated_attribute" where
  "DeprecatedAttribute_init namespace attr val replacement =
     \<lparr>d_attr = attr, d_value = val,
      d_warning = namespace @ ''.'' @ attr @ '' is deprecated; use '' @ replacement @ '' instead''\<rparr>"

text \<open>
  \<^verbatim>\<open>load\<close> creates one type per namespace and instantiates it once, so a proxy object is
  kept together with its own type: \<open>type_dict\<close> holds what \<^verbatim>\<open>setattr(proxy_type, ...)\<close> puts
  on the type (only \<^verbatim>\<open>_DeprecatedAttribute\<close> descriptors are ever put there), \<open>inst_dict\<close> is
  the instance's \<^verbatim>\<open>__dict__\<close>.
\<close>

record proxy_obj =
  type_name :: string
  type_dict :: "deprecated_attribute dict"
  inst_dict :: "pyval dict"

text \<open>
  The process-wide state: \<^verbatim>\<open>sys.modules\<close>, the registry \<^verbatim>\<open>_deprecated_attrs\<close>, the proxies
  created so far (\<open>next_proxy\<close> is the first unused index) and the calls of
  \<^verbatim>\<open>warnings.warn\<close> made so far.
\<close>

record state =
  sys_modules :: "string \<rightharpoonup> pyval"
  deprecated_attrs :: "string \<rightharpoonup> (string \<times> string) list"
  proxies :: "nat \<Rightarrow> proxy_obj"
  next_proxy :: nat
  warnings_log :: "warning list"

datatype find_result = Found bool | FindRaised exn

text \<open>
  What the module takes from outside itself:
  \<^item> \<open>PREFIX\<close>: \<^verbatim>\<open>const.PREFIX\<close>, the package prefixes a namespace is importable under;
  \<^item> \<open>overrides_dir\<close>: \<^verbatim>\<open>os.path.dirname(__file__)\<close>;
  \<^item> \<open>import_module\<close>: \<^verbatim>\<open>__import__(name, fromlist=[""])\<close> followed by \<^verbatim>\<open>vars\<close>: it runs the
    override module, which may change the state (it calls \<^verbatim>\<open>deprecated_attr\<close>, for one), and
    either raises or yields the module's namespace;
  \<^item> \<open>find_module\<close>: \<^verbatim>\<open>imp.find_module(namespace, paths)\<close>; \<open>Found fp\<close> tells whether the file
    object returned is true;
  \<^item> \<open>module_getattr\<close> and \<open>module_dir\<close>: \<^verbatim>\<open>getattr\<close> and \<^verbatim>\<open>dir\<close> on an introspected module, an
    opaque object;
  \<^item> \<open>module_init_dict\<close>: the \<^verbatim>\<open>__dict__\<close> that \<^verbatim>\<open>types.ModuleType.__init__(name)\<close> leaves;
  \<^item> \<open>class_attrs\<close>: the class-level attributes a proxy gets from \<^verbatim>\<open>OverridesProxyModule\<close>,
    \<^verbatim>\<open>types.ModuleType\<close> and \<^verbatim>\<open>object\<close> (\<^verbatim>\<open>__init__\<close>, \<^verbatim>\<open>__repr__\<close>, \<^verbatim>\<open>__doc__\<close>, ...), as a
    lookup through an instance yields them; they are found after the instance's
    \<^verbatim>\<open>__dict__\<close> and before \<^verbatim>\<open>__getattr__\<close> is tried.
\<close>

record env =
  PREFIX :: "string list"
  overrides_dir :: string
  import_module :: "string \<Rightarrow> state \<Rightarrow> (exn + pyval dict) \<times> state"
  find_module :: "string \<Rightarrow> string list \<Rightarrow> find_result"
  module_getattr :: "pyval \<Rightarrow> string \<Rightarrow> exn + pyval"
  module_dir :: "pyval \<Rightarrow> string list"
  module_init_dict :: "string \<Rightarrow> pyval dict"
  class_attrs :: "pyval dict"

definition update_proxy :: "nat \<Rightarrow> (proxy_obj \<Rightarrow> proxy_obj) \<Rightarrow> state \<Rightarrow> state" where
  "update_proxy pid f st = st\<lparr>proxies := (proxies st)(pid := f (proxies st pid))\<rparr>"

definition warn :: "warning \<Rightarrow> state \<Rightarrow> state" where
  "warn w st = st\<lparr>warnings_log := warnings_log st @ [w]\<rparr>"

text \<open>\<^verbatim>\<open>setattr(type(instance), attr, d)\<close> and \<^verbatim>\<open>delattr(type(instance), attr)\<close>.\<close>

definition type_setattr :: "nat \<Rightarrow> string \<Rightarrow> deprecated_attribute \<Rightarrow> state \<Rightarrow> state" where
  "type_setattr pid attr d st =
     update_proxy pid (\<lambda>p. p\<lparr>type_dict := AList.update attr d (type_dict p)\<rparr>) st"

definition type_delattr :: "nat \<Rightarrow> string \<Rightarrow> state \<Rightarrow> (exn + unit) \<times> state" where
  "type_delattr pid attr st =
     (if dict_contains (type_dict (proxies st pid)) attr
      then (Inr (), update_proxy pid (\<lambda>p. p\<lparr>type_dict := AList.delete attr (type_dict p)\<rparr>) st)
      else (Inl (Exc AttributeError []), st))"

text \<open>Storing into and deleting from the instance's \<^verbatim>\<open>__dict__\<close>, when no descriptor steps in.\<close>

definition instance_store :: "nat \<Rightarrow> string \<Rightarrow> pyval \<Rightarrow> state \<Rightarrow> state" where
  "instance_store pid name v st =
     update_proxy pid (\<lambda>p. p\<lparr>inst_dict := AList.update name v (inst_dict p)\<rparr>) st"

definition instance_delete :: "nat \<Rightarrow> string \<Rightarrow> state \<Rightarrow> (exn + unit) \<times> state" where
  "instance_delete pid name st =
     (if dict_contains (inst_dict (proxies st pid)) name
      then (Inr (), update_proxy pid (\<lambda>p. p\<lparr>inst_dict := AList.delete name (inst_dict p)\<rparr>) st)
      else (Inl (Exc AttributeError []), st))"

text \<open>The three methods of \<^verbatim>\<open>_DeprecatedAttribute\<close>.\<close>

definition DeprecatedAttribute_get ::
  "deprecated_attribute \<Rightarrow> nat option \<Rightarrow> state \<Rightarrow> (exn + pyval) \<times> state" where
  "DeprecatedAttribute_get d instance st =
     (case instance of
        None \<Rightarrow> (Inl (Exc AttributeError [PStr (d_attr d)]), st)
      | Some i \<Rightarrow> (Inr (d_value d), warn (Warning (d_warning d) PyGIDeprecationWarning 2) st))"

definition DeprecatedAttribute_set ::
  "deprecated_attribute \<Rightarrow> nat \<Rightarrow> pyval \<Rightarrow> state \<Rightarrow> (exn + unit) \<times> state" where
  "DeprecatedAttribute_set d instance v st =
     (case type_delattr instance (d_attr d) st of
        (Inl e, st') \<Rightarrow> (Inl e, st')
      | (Inr u, st') \<Rightarrow> (Inr (), instance_store instance (d_attr d) v st'))"

definition DeprecatedAttribute_delete ::
  "deprecated_attribute \<Rightarrow> nat \<Rightarrow> state \<Rightarrow> (exn + unit) \<times> state" where
  "DeprecatedAttribute_delete d instance st = type_delattr instance (d_attr d) st"

text \<open>
  Attribute access on a proxy, as Python dispatches it. A \<^verbatim>\<open>_DeprecatedAttribute\<close> defines
  \<^verbatim>\<open>__set__\<close>, so it is a data descriptor and is found before the instance's \<^verbatim>\<open>__dict__\<close>.
  \<open>lookup_normal\<close> is the part before \<^verbatim>\<open>__getattr__\<close>: \<open>None\<close> when the name is found
  nowhere.
\<close>

definition lookup_normal ::
  "env \<Rightarrow> nat \<Rightarrow> string \<Rightarrow> state \<Rightarrow> ((exn + pyval) \<times> state) option" where
  "lookup_normal env pid name st =
     (let p = proxies st pid in
      case map_of (type_dict p) name of
        Some d \<Rightarrow> Some (DeprecatedAttribute_get d (Some pid) st)
      | None \<Rightarrow>
          (case map_of (inst_dict p) name of
             Some v \<Rightarrow> Some (Inr v, st)
           | None \<Rightarrow>
               (case map_of (class_attrs env) name of
                  Some v \<Rightarrow> Some (Inr v, st)
                | None \<Rightarrow> None)))"

text \<open>
  \<^verbatim>\<open>OverridesProxyModule.__getattr__\<close>: \<^verbatim>\<open>getattr(self._introspection_module, name)\<close>. Reading
  \<^verbatim>\<open>self._introspection_module\<close> is an attribute access of its own; were it found nowhere,
  \<^verbatim>\<open>__getattr__\<close> would call itself without end, which Python stops with a
  \<^verbatim>\<open>RecursionError\<close>.
\<close>

definition OverridesProxyModule_getattr ::
  "env \<Rightarrow> nat \<Rightarrow> string \<Rightarrow> state \<Rightarrow> (exn + pyval) \<times> state" where
  "OverridesProxyModule_getattr env pid name st =
     (case lookup_normal env pid ''_introspection_module'' st of
        None \<Rightarrow> (Inl (Exc RecursionError []), st)
      | Some (Inl e, st') \<Rightarrow> (Inl e, st')
      | Some (Inr m, st') \<Rightarrow> (module_getattr env m name, st'))"

definition getattr_proxy :: "env \<Rightarrow> nat \<Rightarrow> string \<Rightarrow> state \<Rightarrow> (exn + pyval) \<times> state" where
  "getattr_proxy env pid name st =
     (case lookup_normal env pid name st of
        Some r \<Rightarrow> r
      | None \<Rightarrow> OverridesProxyModule_getattr env pid name st)"

definition setattr_proxy :: "nat \<Rightarrow> string \<Rightarrow> pyval \<Rightarrow> state \<Rightarrow> (exn + unit) \<times> state" where
  "setattr_proxy pid name v st =
     (case map_of (type_dict (proxies st pid)) name of
        Some d \<Rightarrow> DeprecatedAttribute_set d pid v st
      | None \<Rightarrow> (Inr (), instance_store pid name v st))"

definition delattr_proxy :: "nat \<Rightarrow> string \<Rightarrow> state \<Rightarrow> (exn + unit) \<times> state" where
  "delattr_proxy pid name st =
     (case map_of (type_dict (proxies st pid)) name of
        Some d \<Rightarrow> DeprecatedAttribute_delete d pid st
      | None \<Rightarrow> instance_delete pid name st)"

text \<open>\<^verbatim>\<open>dir(self.__class__)\<close> and \<^verbatim>\<open>OverridesProxyModule.__dir__\<close>.\<close>

definition dir_class :: "env \<Rightarrow> proxy_obj \<Rightarrow> string list" where
  "dir_class env p = sort (remdups (map fst (type_dict p) @ map fst (class_attrs env)))"

definition OverridesProxyModule_dir ::
  "env \<Rightarrow> nat \<Rightarrow> state \<Rightarrow> (exn + string list) \<times> state" where
  "OverridesProxyModule_dir env pid st =
     (let p = proxies st pid;
          result = dir_class env p @ map fst (inst_dict p)
      in case getattr_proxy env pid ''_introspection_module'' st of
           (Inl e, st') \<Rightarrow> (Inl e, st')
         | (Inr m, st') \<Rightarrow> (Inr (sort (remdups (result @ module_dir env m))), st'))"

text \<open>
  \<^verbatim>\<open>OverridesProxyModule.__init__\<close>, called on a fresh instance of a fresh type: it reads
  \<^verbatim>\<open>introspection_module.__name__\<close>, lets \<^verbatim>\<open>types.ModuleType.__init__\<close> fill the \<^verbatim>\<open>__dict__\<close>
  and stores the wrapped module.
\<close>

definition OverridesProxyModule_init ::
  "env \<Rightarrow> string \<Rightarrow> pyval \<Rightarrow> state \<Rightarrow> (exn + nat) \<times> state" where
  "OverridesProxyModule_init env tname introspection_module st =
     (case module_getattr env introspection_module ''__name__'' of
        Inl e \<Rightarrow> (Inl e, st)
      | Inr (PStr name) \<Rightarrow>
          (let pid = next_proxy st;
               p = \<lparr>type_name = tname, type_dict = [],
                    inst_dict = AList.update ''_introspection_module'' introspection_module
                                  (module_init_dict env name)\<rparr>
           in (Inr pid, st\<lparr>proxies := (proxies st)(pid := p), next_proxy := Suc pid\<rparr>))
      | Inr v \<Rightarrow> (Inl (Exc TypeError []), st))"

text \<open>
  The shape \<^verbatim>\<open>load\<close> keeps a proxy in: every descriptor on the type sits under its own
  attribute name, and that name is not in the instance's \<^verbatim>\<open>__dict__\<close>.
\<close>

definition proxy_inv :: "proxy_obj \<Rightarrow> bool" where
  "proxy_inv p =
     list_all (\<lambda>(k, d). d_attr d = k \<and> map_of (inst_dict p) k = None) (type_dict p)"


section \<open>load and deprecated_attr\<close>

definition deprecated_attr :: "string \<Rightarrow> string \<Rightarrow> string \<Rightarrow> state \<Rightarrow> state" where
  "deprecated_attr namespace attr replacement st =
     st\<lparr>deprecated_attrs := (deprecated_attrs st)
          (namespace \<mapsto> (case deprecated_attrs st namespace of None \<Rightarrow> [] | Some l \<Rightarrow> l)
                          @ [(attr, replacement)])\<rparr>"

text \<open>\<^verbatim>\<open>for prefix in const.PREFIX: sys.modules[prefix + "." + namespace] = obj\<close>\<close>

fun register_modules :: "string list \<Rightarrow> string \<Rightarrow> pyval \<Rightarrow> state \<Rightarrow> state" where
  "register_modules [] namespace obj st = st"
| "register_modules (prefix # rest) namespace obj st =
     register_modules rest namespace obj
       (st\<lparr>sys_modules := (sys_modules st)(prefix @ ''.'' @ namespace \<mapsto> obj)\<rparr>)"

text \<open>
  Modelled from the spec: \<^verbatim>\<open>_compat.reraise(tp, value, tb)\<close> is defined in
  \<^verbatim>\<open>pgi/_compat.py\<close>, which is not among the sources. The spec says of a failure inside the
  override unit that it is "propagated unchanged to the caller of bind": the exception
  raised is \<open>value\<close>.
\<close>

definition reraise :: "exc_type \<Rightarrow> exn \<Rightarrow> exn" where
  "reraise tp val = val"

text \<open>
  \<^verbatim>\<open>override_vars.get("__all__") or []\<close>, iterating over it, and \<^verbatim>\<open>override_vars.get(var)\<close>:
  the keys of a module's namespace are strings, a list is not hashable, and a tuple is
  hashable when its elements are.
\<close>

definition override_all :: "pyval dict \<Rightarrow> pyval" where
  "override_all override_vars =
     (case map_of override_vars ''__all__'' of
        None \<Rightarrow> PList []
      | Some v \<Rightarrow> if truthy v then v else PList [])"

fun py_iter :: "pyval \<Rightarrow> exn + pyval list" where
  "py_iter (PList xs) = Inr xs"
| "py_iter (PTuple xs) = Inr xs"
| "py_iter (PStr s) = Inr (map (\<lambda>c. PStr [c]) s)"
| "py_iter v = Inl (Exc TypeError [])"

fun hashable :: "pyval \<Rightarrow> bool" where
  "hashable (PList xs) = False"
| "hashable (PTuple xs) = list_all hashable xs"
| "hashable v = True"

definition vars_get :: "pyval dict \<Rightarrow> pyval \<Rightarrow> exn + pyval" where
  "vars_get override_vars var =
     (case var of
        PStr s \<Rightarrow> Inr (case map_of override_vars s of Some v \<Rightarrow> v | None \<Rightarrow> PNone)
      | _ \<Rightarrow> if hashable var then Inr PNone else Inl (Exc TypeError []))"

text \<open>
  \<^verbatim>\<open>if item.__module__.split(".")[-1] == namespace: item.__module__ = namespace\<close>, with the
  \<^verbatim>\<open>AttributeError\<close> of an item that has no such attribute passed over. Only opaque objects
  carry a \<^verbatim>\<open>__module__\<close> here.
\<close>

definition last_component :: "string \<Rightarrow> string" where
  "last_component s = rev (takeWhile (\<lambda>c. c \<noteq> CHR ''.'') (rev s))"

definition fix_module :: "string \<Rightarrow> pyval \<Rightarrow> pyval" where
  "fix_module namespace item =
     (case item of
        PObj i (Some m) \<Rightarrow> if last_component m = namespace then PObj i (Some namespace) else item
      | _ \<Rightarrow> item)"

text \<open>The loop over \<^verbatim>\<open>__all__\<close> (lines 118 to 127).\<close>

fun export_loop ::
  "string \<Rightarrow> nat \<Rightarrow> pyval dict \<Rightarrow> pyval list \<Rightarrow> state \<Rightarrow> (exn + unit) \<times> state" where
  "export_loop namespace proxy override_vars [] st = (Inr (), st)"
| "export_loop namespace proxy override_vars (var # rest) st =
     (case vars_get override_vars var of
        Inl e \<Rightarrow> (Inl e, st)
      | Inr item \<Rightarrow>
          if item = PNone then (Inl (Exc AssertionError []), st)
          else
            (case var of
               PStr name \<Rightarrow>
                 (case setattr_proxy proxy name (fix_module namespace item) st of
                    (Inl e, st') \<Rightarrow> (Inl e, st')
                  | (Inr u, st') \<Rightarrow> export_loop namespace proxy override_vars rest st')
             | _ \<Rightarrow> (Inl (Exc TypeError []), st)))"

text \<open>The loop over the drained registry entry (lines 131 to 140).\<close>

fun deprecation_loop ::
  "env \<Rightarrow> string \<Rightarrow> nat \<Rightarrow> (string \<times> string) list \<Rightarrow> state \<Rightarrow> (exn + unit) \<times> state" where
  "deprecation_loop env namespace proxy [] st = (Inr (), st)"
| "deprecation_loop env namespace proxy ((attr, replacement) # rest) st =
     (case getattr_proxy env proxy attr st of
        (Inl e, st1) \<Rightarrow>
          if isinstance e AttributeError
          then (Inl (Exc AssertionError
                       [PStr (attr @ '' was set deprecated but wasn't added to __all__'')]), st1)
          else (Inl e, st1)
      | (Inr val, st1) \<Rightarrow>
          (case delattr_proxy proxy attr st1 of
             (Inl e, st2) \<Rightarrow> (Inl e, st2)
           | (Inr u, st2) \<Rightarrow>
               deprecation_loop env namespace proxy rest
                 (type_setattr proxy attr
                    (DeprecatedAttribute_init namespace attr val replacement) st2)))"

text \<open>\<^verbatim>\<open>__name__\<close> of this module, and \<^verbatim>\<open>load\<close> itself.\<close>

definition this_module :: string where
  "this_module = ''pgi.overrides''"

definition load :: "env \<Rightarrow> string \<Rightarrow> pyval \<Rightarrow> state \<Rightarrow> (exn + pyval) \<times> state" where
  "load env namespace module st =
     (case OverridesProxyModule_init env (namespace @ ''ProxyModule'') module st of
        (Inl e, st0) \<Rightarrow> (Inl e, st0)
      | (Inr proxy, st0) \<Rightarrow>
          (let st1 = register_modules (PREFIX env) namespace (PProxy proxy) st0 in
           case import_module env (this_module @ ''.'' @ namespace) st1 of
             (Inl err, st2) \<Rightarrow>
               if isinstance err Exception then
                 (case find_module env namespace [overrides_dir env] of
                    FindRaised e \<Rightarrow>
                      if isinstance e ImportError
                      then (Inr module, register_modules (PREFIX env) namespace module st2)
                      else (Inl e, st2)
                  | Found fp \<Rightarrow> (Inl (reraise ImportError err), st2))
               else (Inl err, st2)
           | (Inr override_vars, st2) \<Rightarrow>
               (case py_iter (override_all override_vars) of
                  Inl e \<Rightarrow> (Inl e, st2)
                | Inr names \<Rightarrow>
                    (case export_loop namespace proxy override_vars names st2 of
                       (Inl e, st3) \<Rightarrow> (Inl e, st3)
                     | (Inr u, st3) \<Rightarrow>
                         (let entries = (case deprecated_attrs st3 namespace of
                                           None \<Rightarrow> [] | Some l \<Rightarrow> l);
                              st4 = st3\<lparr>deprecated_attrs :=
                                          (deprecated_attrs st3)(namespace := None)\<rparr>
                          in case deprecation_loop env namespace proxy entries st4 of
                               (Inl e, st5) \<Rightarrow> (Inl e, st5)
                             | (Inr u', st5) \<Rightarrow> (Inr (PProxy proxy), st5))))))"

section \<open>An example: the namespace Gtk\<close>

text \<open>
  A small environment to run the definitions on. The introspected module \<^verbatim>\<open>Gtk\<close> has the
  attributes \<^verbatim>\<open>__name__\<close> and \<^verbatim>\<open>FOO\<close>. The override unit is a parameter: absent, raising
  while it is evaluated, exporting \<^verbatim>\<open>BAR\<close> and deprecating it, or deprecating names it does
  not export.
\<close>

definition gtk_module :: pyval where
  "gtk_module = PObj 0 None"

definition example_getattr :: "pyval \<Rightarrow> string \<Rightarrow> exn + pyval" where
  "example_getattr m name =
     (if name = ''__name__'' then Inr (PStr ''Gtk'')
      else if name = ''FOO'' then Inr (PInt 1)
      else Inl (Exc AttributeError []))"

definition example_env :: "(state \<Rightarrow> (exn + pyval dict) \<times> state) \<Rightarrow> find_result \<Rightarrow> env" where
  "example_env unit found =
     \<lparr>PREFIX = [''pgi.repository'', ''gi.repository''],
      overrides_dir = ''pgi/overrides'',
      import_module = (\<lambda>name. unit),
      find_module = (\<lambda>namespace paths. found),
      module_getattr = example_getattr,
      module_dir = (\<lambda>m. [''FOO'', ''__name__'']),
      module_init_dict = (\<lambda>name. [(''__name__'', PStr name), (''__doc__'', PNone)]),
      class_attrs = [(''__doc__'', PNone), (''__repr__'', PObj 1 None)]\<rparr>"

definition initial_state :: state where
  "initial_state =
     \<lparr>sys_modules = Map.empty, deprecated_attrs = Map.empty,
      proxies = (\<lambda>i. \<lparr>type_name = [], type_dict = [], inst_dict = []\<rparr>),
      next_proxy = 0, warnings_log = []\<rparr>"

definition absent_unit :: "state \<Rightarrow> (exn + pyval dict) \<times> state" where
  "absent_unit st = (Inl (Exc ModuleNotFoundError []), st)"

definition broken_unit :: "state \<Rightarrow> (exn + pyval dict) \<times> state" where
  "broken_unit st = (Inl (Exc ValueError [PStr ''boom'']), st)"

definition good_unit :: "state \<Rightarrow> (exn + pyval dict) \<times> state" where
  "good_unit st =
     (Inr [(''__all__'', PList [PStr ''BAR'']), (''BAR'', PInt 2)],
      deprecated_attr ''Gtk'' ''BAR'' ''Gtk.Baz'' st)"

definition unexported_unit :: "state \<Rightarrow> (exn + pyval dict) \<times> state" where
  "unexported_unit st =
     (Inr [(''__all__'', PList [])], deprecated_attr ''Gtk'' ''FOO'' ''Gtk.Bar'' st)"

definition loaded_state :: state where
  "loaded_state = snd (load (example_env good_unit (Found True)) ''Gtk'' gtk_module initial_state)"

definition unexported_then_missing_unit :: "state \<Rightarrow> (exn + pyval dict) \<times> state" where
  "unexported_then_missing_unit st =
     (Inr [(''__all__'', PList [])],
      deprecated_attr ''Gtk'' ''BAZ'' ''Gtk.Qux'' (deprecated_attr ''Gtk'' ''FOO'' ''Gtk.Bar'' st))"

section \<open>Results about strip_boolean_result\<close>

text \<open>
  C9: when the method returns a one-element sequence whose only element is true, such as
  \<^verbatim>\<open>(True,)\<close>, the wrapper returns the empty rest of that sequence (\<^verbatim>\<open>ret[1:]\<close>), whatever
  failure kind, message and failure value are configured: it neither raises nor returns
  the failure value in place of the slice.
\<close>

theorem strip_boolean_result_no_outputs:
  assumes "truthy flag"
  shows "strip_boolean_result (\<lambda>a. Inr (PTuple [flag])) exc_type exc_str fail_ret args
           = Inr (PTuple [])
       \<and> strip_boolean_result (\<lambda>a. Inr (PList [flag])) exc_type exc_str fail_ret args
           = Inr (PList [])"
  using assms by (simp add: strip_boolean_result_def index_list_def)

theorem strip_boolean_result_no_outputs_witness:
  "truthy (PBool True)
   \<and> strip_boolean_result (\<lambda>a. Inr (PTuple [PBool True])) (Some ValueError) (PStr ''no'') (PInt 0) ()
       = Inr (PTuple [])"
  using strip_boolean_result_no_outputs [of "PBool True" "Some ValueError" "PStr ''no''" "PInt 0" "()"]
  by simp

text \<open>
  C3, as amended: for every wrapped callable, when it returns \<^verbatim>\<open>(True, x)\<close> the wrapper
  returns \<open>x\<close> bare (so \<open>7\<close> for \<^verbatim>\<open>(True, 7)\<close>); when it returns \<^verbatim>\<open>(True, x, y)\<close> the wrapper
  returns the tuple \<^verbatim>\<open>(x, y)\<close> in that order; when the flag of its result is false and no
  failure kind is configured the wrapper returns \<^verbatim>\<open>fail_ret\<close> (\<^verbatim>\<open>None\<close> by default); when a
  failure kind is configured the wrapper raises it, constructed with \<^verbatim>\<open>exc_str\<close> if that is
  given and true (a non-empty string), else with \<^verbatim>\<open>'call failed'\<close>.
\<close>

theorem strip_boolean_result_cases:
  "(method args = Inr (PTuple [PBool True, x])
      \<longrightarrow> strip_boolean_result method exc_type exc_str fail_ret args = Inr x)
 \<and> (method args = Inr (PTuple [PBool True, x, y])
      \<longrightarrow> strip_boolean_result method exc_type exc_str fail_ret args = Inr (PTuple [x, y]))
 \<and> (method args = Inr ret \<and> py_getitem ret 0 = Inr flag \<and> \<not> truthy flag
      \<longrightarrow> strip_boolean_result method None exc_str fail_ret args = Inr fail_ret
        \<and> strip_boolean_result method None PNone PNone args = Inr PNone
        \<and> (truthy exc_str \<longrightarrow>
              strip_boolean_result method (Some t) exc_str fail_ret args = Inl (Exc t [exc_str]))
        \<and> (\<not> truthy exc_str \<longrightarrow>
              strip_boolean_result method (Some t) exc_str fail_ret args
                = Inl (Exc t [PStr ''call failed''])))"
  by (simp add: strip_boolean_result_def index_list_def)

theorem strip_boolean_result_cases_witness:
  "strip_boolean_result (\<lambda>a. Inr (PTuple [PBool True, PInt 7])) None PNone PNone () = Inr (PInt 7)
 \<and> strip_boolean_result (\<lambda>a. Inr (PTuple [PBool True, PInt 7, PInt 8])) None PNone PNone ()
     = Inr (PTuple [PInt 7, PInt 8])
 \<and> strip_boolean_result (\<lambda>a. Inr (PTuple [PBool False])) None PNone PNone () = Inr PNone
 \<and> strip_boolean_result (\<lambda>a. Inr (PTuple [PBool False])) (Some ValueError) (PStr ''no'') PNone ()
     = Inl (Exc ValueError [PStr ''no''])
 \<and> strip_boolean_result (\<lambda>a. Inr (PTuple [PBool False])) (Some ValueError) PNone PNone ()
     = Inl (Exc ValueError [PStr ''call failed''])"
proof -
  let ?ok1 = "\<lambda>a::unit. Inr (PTuple [PBool True, PInt 7]) :: exn + pyval"
  let ?ok2 = "\<lambda>a::unit. Inr (PTuple [PBool True, PInt 7, PInt 8]) :: exn + pyval"
  let ?bad = "\<lambda>a::unit. Inr (PTuple [PBool False]) :: exn + pyval"
  have flag: "py_getitem (PTuple [PBool False]) 0 = Inr (PBool False)"
    by (simp add: index_list_def)
  note one = strip_boolean_result_cases [of ?ok1 "()" "PInt 7" None PNone PNone]
  note two = strip_boolean_result_cases [of ?ok2 "()" "PInt 7" None PNone PNone "PInt 8"]
  note msg = strip_boolean_result_cases
    [of ?bad "()" _ _ "PStr ''no''" PNone _ "PTuple [PBool False]" "PBool False" ValueError]
  note dfl = strip_boolean_result_cases
    [of ?bad "()" _ _ PNone PNone _ "PTuple [PBool False]" "PBool False" ValueError]
  from one two msg dfl flag show ?thesis by simp
qed

text \<open>
  C3 as stated fails for a message that is given and empty: \<^verbatim>\<open>exc_str or 'call failed'\<close>
  takes the default message then.
\<close>

theorem strip_boolean_result_empty_message:
  "strip_boolean_result (\<lambda>a. Inr (PTuple [PBool False])) (Some ValueError) (PStr '''') PNone ()
     = Inl (Exc ValueError [PStr ''call failed''])
 \<and> strip_boolean_result (\<lambda>a. Inr (PTuple [PBool False])) (Some ValueError) (PStr '''') PNone ()
     \<noteq> Inl (Exc ValueError [PStr ''''])"
  by (simp add: strip_boolean_result_def index_list_def)

section \<open>Results about deprecated_init\<close>

text \<open>
  C4, as amended: with \<^verbatim>\<open>arg_names = ["a", "b"]\<close>, \<^verbatim>\<open>deprecated_aliases = {"x": "old_x"}\<close> and
  \<^verbatim>\<open>deprecated_defaults = {"y": 1}\<close>, the call with positionals \<^verbatim>\<open>(10, 20)\<close> and keyword
  \<^verbatim>\<open>old_x=5\<close> invokes the wrapped initializer with the receiver, no positional argument and
  exactly the keywords \<^verbatim>\<open>a=10, b=20, x=5, y=1\<close>, and issues exactly three warnings: the
  one for positional use naming \<^verbatim>\<open>a, b\<close>, the one for alias use naming \<^verbatim>\<open>old_x\<close> and \<^verbatim>\<open>x\<close>,
  and the one for default use naming \<^verbatim>\<open>y=1\<close>, in this order.
\<close>

theorem deprecated_init_scenario:
  "deprecated_init str_int super_init_func [''a'', ''b''] [] [(''x'', ''old_x'')] [(''y'', 1)]
       PyGIDeprecationWarning 2 self [10, 20] [(''old_x'', 5)]
     = ([Warning (positional_message ''a, b'') PyGIDeprecationWarning 2,
         Warning (alias_message ''old_x'' ''x'') PyGIDeprecationWarning 2,
         Warning (defaults_message ''y=1'') PyGIDeprecationWarning 2],
        super_init_func \<lparr>recv = self, pos_args = [],
                          kw_args = [(''a'', 10), (''b'', 20), (''x'', 5), (''y'', 1)]\<rparr>)"
  by (simp add: deprecated_init_def dict_update_def dict_contains_def dict_getitem_def str_int_def)

text \<open>C4 as stated says exactly two warnings; the call issues three.\<close>

theorem deprecated_init_scenario_three_warnings:
  "length (fst (deprecated_init str_int (\<lambda>c. c) [''a'', ''b''] [] [(''x'', ''old_x'')] [(''y'', 1)]
                  PyGIDeprecationWarning 2 () [10, 20] [(''old_x'', 5)])) \<noteq> 2"
  by (simp add: deprecated_init_def dict_update_def dict_contains_def dict_getitem_def str_int_def)

text \<open>
  The keys the two loops record are keys of the dictionary they run over, so the lookups
  that build the messages find them.
\<close>

lemma alias_loop_used:
  "set (snd (alias_loop aliases new_kwargs used)) \<subseteq> set used \<union> fst ` set aliases"
  by (induction aliases new_kwargs used rule: alias_loop.induct) auto

lemma defaults_loop_used:
  "set (snd (defaults_loop defaults items new_kwargs used)) \<subseteq> set used \<union> fst ` set items"
  by (induction defaults items new_kwargs used rule: defaults_loop.induct) auto

lemma zip_take_right: "zip xs (take (length xs) ys) = zip xs ys"
proof (induction xs arbitrary: ys)
  case Nil
  show ?case by simp
next
  case (Cons x xs)
  show ?case by (cases ys) (simp_all add: Cons.IH)
qed

text \<open>
  C10: when more positional arguments are passed than \<^verbatim>\<open>arg_names\<close> has names, the wrapped
  initializer is called exactly as if only the first \<^verbatim>\<open>len(arg_names)\<close> positionals had been
  passed, so the surplus values never reach it and nothing is raised for them; the first
  warning is the one for positional use and names exactly \<^verbatim>\<open>arg_names\<close>, and the warnings
  after it are those of the call without the surplus.
\<close>

theorem deprecated_init_surplus_positionals:
  assumes "length arg_names < length args"
  shows "snd (deprecated_init str_of f arg_names ignore aliases defaults cat sl self args kwargs)
         = snd (deprecated_init str_of f arg_names ignore aliases defaults cat sl self
                  (take (length arg_names) args) kwargs)
       \<and> fst (deprecated_init str_of f arg_names ignore aliases defaults cat sl self args kwargs)
         = Warning (positional_message (join '', '' arg_names)) cat sl
           # (if arg_names = []
              then fst (deprecated_init str_of f arg_names ignore aliases defaults cat sl self [] kwargs)
              else tl (fst (deprecated_init str_of f arg_names ignore aliases defaults cat sl self
                              (take (length arg_names) args) kwargs)))"
proof -
  from assms have ne: "args \<noteq> []" by auto
  from assms have tk: "take (length args) arg_names = arg_names" by simp
  show ?thesis
  proof (cases "arg_names = []")
    case True
    then show ?thesis using ne
      by (simp add: deprecated_init_def Let_def case_prod_beta dict_update_def)
  next
    case False
    with assms have ne2: "take (length arg_names) args \<noteq> []" by auto
    have tk2: "take (length (take (length arg_names) args)) arg_names = arg_names"
      using assms by simp
    show ?thesis using ne ne2 False
      by (simp add: deprecated_init_def Let_def case_prod_beta tk tk2 zip_take_right)
  qed
qed

theorem deprecated_init_surplus_positionals_witness:
  "length [''a''] < length [10, 20, 30 :: int]
   \<and> deprecated_init str_int (\<lambda>c. c) [''a''] [] [] [] PyGIDeprecationWarning 2 () [10, 20, 30] []
     = ([Warning (positional_message ''a'') PyGIDeprecationWarning 2],
        \<lparr>recv = (), pos_args = [], kw_args = [(''a'', 10)]\<rparr>)"
proof -
  have short: "length [''a''] < length [10, 20, 30 :: int]" by simp
  have cut: "deprecated_init str_int (\<lambda>c. c) [''a''] [] [] [] PyGIDeprecationWarning 2 ()
               (take (length [''a'']) [10, 20, 30]) []
             = ([Warning (positional_message ''a'') PyGIDeprecationWarning 2],
                \<lparr>recv = (), pos_args = [], kw_args = [(''a'', 10 :: int)]\<rparr>)"
    by (simp add: deprecated_init_def dict_update_def)
  from deprecated_init_surplus_positionals
         [OF short, of str_int "\<lambda>c. c" "[]" "[]" "[]" PyGIDeprecationWarning 2 "()" "[]"]
  have "deprecated_init str_int (\<lambda>c. c) [''a''] [] [] [] PyGIDeprecationWarning 2 () [10, 20, 30] []
        = ([Warning (positional_message ''a'') PyGIDeprecationWarning 2],
           \<lparr>recv = (), pos_args = [], kw_args = [(''a'', 10 :: int)]\<rparr>)"
    unfolding cut by (simp add: prod_eq_iff)
  with short show ?thesis by simp
qed

text \<open>The definitions to unfold when a concrete run is evaluated.\<close>

lemmas proxy_defs =
  update_proxy_def warn_def type_setattr_def type_delattr_def instance_store_def
  instance_delete_def DeprecatedAttribute_get_def DeprecatedAttribute_set_def
  DeprecatedAttribute_delete_def DeprecatedAttribute_init_def lookup_normal_def
  OverridesProxyModule_getattr_def getattr_proxy_def setattr_proxy_def delattr_proxy_def
  dict_contains_def

lemmas example_defs =
  example_env_def example_getattr_def initial_state_def gtk_module_def

lemmas load_defs =
  load_def OverridesProxyModule_init_def override_all_def vars_get_def fix_module_def
  deprecated_attr_def isinstance_def this_module_def

lemma sys_modules_register_modules:
  "sys_modules (register_modules ps ns obj st) k =
     (if k \<in> (\<lambda>p. p @ ''.'' @ ns) ` set ps then Some obj else sys_modules st k)"
  by (induction ps arbitrary: st) auto

section \<open>Results about load\<close>

text \<open>
  C1: when the namespace has no override unit (the import raises an exception and
  \<^verbatim>\<open>imp.find_module\<close> raises \<^verbatim>\<open>ImportError\<close>), \<^verbatim>\<open>load\<close> returns the very \<^verbatim>\<open>module\<close> it was given,
  and afterwards \<^verbatim>\<open>sys.modules[prefix + "." + namespace]\<close> is that module for every prefix
  of \<^verbatim>\<open>const.PREFIX\<close>, not the proxy registered at the start. The first hypothesis says that
  the proxy could be built, which takes \<^verbatim>\<open>module.__name__\<close>.
\<close>

theorem load_without_override:
  assumes init: "OverridesProxyModule_init env (namespace @ ''ProxyModule'') module st = (Inr proxy, st0)"
    and imp: "import_module env (this_module @ ''.'' @ namespace)
                (register_modules (PREFIX env) namespace (PProxy proxy) st0) = (Inl err, st2)"
    and err: "isinstance err Exception"
    and find: "find_module env namespace [overrides_dir env] = FindRaised e"
    and e: "isinstance e ImportError"
  shows "fst (load env namespace module st) = Inr module
       \<and> (\<forall>prefix \<in> set (PREFIX env).
            sys_modules (snd (load env namespace module st)) (prefix @ ''.'' @ namespace)
              = Some module)"
proof -
  have "load env namespace module st
          = (Inr module, register_modules (PREFIX env) namespace module st2)"
    using init imp err find e by (simp add: load_def)
  then show ?thesis by (simp add: sys_modules_register_modules)
qed

theorem load_without_override_witness:
  "fst (load (example_env absent_unit (FindRaised (Exc ImportError []))) ''Gtk'' gtk_module
          initial_state) = Inr gtk_module
 \<and> sys_modules (snd (load (example_env absent_unit (FindRaised (Exc ImportError []))) ''Gtk''
                        gtk_module initial_state)) ''pgi.repository.Gtk'' = Some gtk_module
 \<and> sys_modules (snd (load (example_env absent_unit (FindRaised (Exc ImportError []))) ''Gtk''
                        gtk_module initial_state)) ''gi.repository.Gtk'' = Some gtk_module"
proof -
  let ?env = "example_env absent_unit (FindRaised (Exc ImportError []))"
  let ?init = "OverridesProxyModule_init ?env (''Gtk'' @ ''ProxyModule'') gtk_module initial_state"
  have init: "?init = (Inr 0, snd ?init)"
    by (simp add: OverridesProxyModule_init_def example_env_def example_getattr_def
        initial_state_def)
  have imp: "import_module ?env (this_module @ ''.'' @ ''Gtk'')
               (register_modules (PREFIX ?env) ''Gtk'' (PProxy 0) (snd ?init))
             = (Inl (Exc ModuleNotFoundError []),
                register_modules (PREFIX ?env) ''Gtk'' (PProxy 0) (snd ?init))"
    by (simp add: example_env_def absent_unit_def)
  have err: "isinstance (Exc ModuleNotFoundError []) Exception"
    by (simp add: isinstance_def)
  have find: "find_module ?env ''Gtk'' [overrides_dir ?env] = FindRaised (Exc ImportError [])"
    by (simp add: example_env_def)
  have e: "isinstance (Exc ImportError []) ImportError"
    by (simp add: isinstance_def)
  have prefixes: "PREFIX ?env = [''pgi.repository'', ''gi.repository'']"
    by (simp add: example_env_def)
  from load_without_override [OF init imp err find e] show ?thesis
    unfolding prefixes by simp
qed

text \<open>
  What \<^verbatim>\<open>load\<close> does by its own code when the override unit exists (\<^verbatim>\<open>imp.find_module\<close>
  finds it) and its import raises: an exception that is not an \<^verbatim>\<open>Exception\<close> passes
  through the \<^verbatim>\<open>except\<close> clause, any other is handed to \<^verbatim>\<open>_compat.reraise\<close>. In both
  cases \<^verbatim>\<open>load\<close> raises, and \<^verbatim>\<open>sys.modules\<close> is left as the import left it.
\<close>

lemma load_override_raises_by_reraise:
  assumes "OverridesProxyModule_init env (namespace @ ''ProxyModule'') module st = (Inr proxy, st0)"
    and "import_module env (this_module @ ''.'' @ namespace)
           (register_modules (PREFIX env) namespace (PProxy proxy) st0) = (Inl err, st2)"
    and "find_module env namespace [overrides_dir env] = Found fp"
  shows "load env namespace module st
           = (Inl (if isinstance err Exception then reraise ImportError err else err), st2)"
  using assms by (simp add: load_def)

text \<open>
  C2: when the override unit exists and raises while it is evaluated, \<^verbatim>\<open>load\<close> raises that
  same exception to its caller: it does not return \<^verbatim>\<open>module\<close> as it does for an absent
  unit, and it does not swallow the failure. That the exception is the same one rests on
  \<open>reraise\<close>, which is modelled from the spec.
\<close>

theorem load_override_raises:
  assumes init: "OverridesProxyModule_init env (namespace @ ''ProxyModule'') module st = (Inr proxy, st0)"
    and imp: "import_module env (this_module @ ''.'' @ namespace)
                (register_modules (PREFIX env) namespace (PProxy proxy) st0) = (Inl err, st2)"
    and find: "find_module env namespace [overrides_dir env] = Found fp"
  shows "load env namespace module st = (Inl err, st2)"
proof (cases "isinstance err Exception")
  case True
  with init imp find show ?thesis by (simp add: load_def reraise_def)
next
  case False
  with init imp show ?thesis by (simp add: load_def)
qed

theorem load_override_raises_witness:
  "fst (load (example_env broken_unit (Found True)) ''Gtk'' gtk_module initial_state)
     = Inl (Exc ValueError [PStr ''boom''])"
proof -
  let ?env = "example_env broken_unit (Found True)"
  let ?init = "OverridesProxyModule_init ?env (''Gtk'' @ ''ProxyModule'') gtk_module initial_state"
  have init: "?init = (Inr 0, snd ?init)"
    by (simp add: OverridesProxyModule_init_def example_env_def example_getattr_def
        initial_state_def)
  have imp: "import_module ?env (this_module @ ''.'' @ ''Gtk'')
               (register_modules (PREFIX ?env) ''Gtk'' (PProxy 0) (snd ?init))
             = (Inl (Exc ValueError [PStr ''boom'']),
                register_modules (PREFIX ?env) ''Gtk'' (PProxy 0) (snd ?init))"
    by (simp add: example_env_def broken_unit_def)
  have find: "find_module ?env ''Gtk'' [overrides_dir ?env] = Found True"
    by (simp add: example_env_def)
  from load_override_raises [OF init imp find] show ?thesis by simp
qed

lemma deprecated_attrs_update_proxy [simp]:
  "deprecated_attrs (update_proxy pid f st) = deprecated_attrs st"
  by (simp add: update_proxy_def)

lemma deprecated_attrs_warn [simp]: "deprecated_attrs (warn w st) = deprecated_attrs st"
  by (simp add: warn_def)

lemma deprecated_attrs_lookup_normal:
  "lookup_normal env pid name st = Some (r, st') \<Longrightarrow> deprecated_attrs st' = deprecated_attrs st"
  by (auto simp: lookup_normal_def DeprecatedAttribute_get_def Let_def split: option.splits)

lemma deprecated_attrs_getattr_proxy:
  "getattr_proxy env pid name st = (r, st') \<Longrightarrow> deprecated_attrs st' = deprecated_attrs st"
  by (auto simp: getattr_proxy_def OverridesProxyModule_getattr_def
      split: option.splits sum.splits prod.splits dest: deprecated_attrs_lookup_normal)

lemma deprecated_attrs_type_delattr:
  "type_delattr pid name st = (r, st') \<Longrightarrow> deprecated_attrs st' = deprecated_attrs st"
  by (auto simp: type_delattr_def split: if_splits)

lemma deprecated_attrs_delattr_proxy:
  "delattr_proxy pid name st = (r, st') \<Longrightarrow> deprecated_attrs st' = deprecated_attrs st"
  by (auto simp: delattr_proxy_def DeprecatedAttribute_delete_def instance_delete_def
      split: option.splits if_splits dest: deprecated_attrs_type_delattr)

lemma deprecated_attrs_deprecation_loop:
  "deprecation_loop env ns pid entries st = (r, st') \<Longrightarrow> deprecated_attrs st' = deprecated_attrs st"
proof (induction entries arbitrary: st)
  case Nil
  then show ?case by simp
next
  case (Cons entry entries)
  obtain attr replacement where entry: "entry = (attr, replacement)" by (cases entry)
  obtain g st1 where get: "getattr_proxy env pid attr st = (g, st1)"
    by (cases "getattr_proxy env pid attr st")
  have keep1: "deprecated_attrs st1 = deprecated_attrs st"
    using get by (rule deprecated_attrs_getattr_proxy)
  show ?case
  proof (cases g)
    case (Inl e)
    with Cons.prems entry get keep1 show ?thesis by (auto split: if_splits)
  next
    case (Inr val)
    obtain dl st2 where del: "delattr_proxy pid attr st1 = (dl, st2)"
      by (cases "delattr_proxy pid attr st1")
    have keep2: "deprecated_attrs st2 = deprecated_attrs st1"
      using del by (rule deprecated_attrs_delattr_proxy)
    show ?thesis
    proof (cases dl)
      case (Inl e)
      with Cons.prems entry get Inr del keep1 keep2 show ?thesis by auto
    next
      case (Inr u)
      with Cons.prems entry get \<open>g = Inr val\<close> del
      have "deprecation_loop env ns pid entries
              (type_setattr pid attr (DeprecatedAttribute_init ns attr val replacement) st2)
            = (r, st')"
        by simp
      from Cons.IH [OF this] keep1 keep2 show ?thesis by (simp add: type_setattr_def)
    qed
  qed
qed

text \<open>
  C7: when the override unit was evaluated successfully and \<^verbatim>\<open>load\<close> returns, it returns
  the proxy, and \<^verbatim>\<open>_deprecated_attrs\<close> has no entry for the namespace any more.
\<close>

theorem load_drains_registry:
  assumes init: "OverridesProxyModule_init env (namespace @ ''ProxyModule'') module st = (Inr proxy, st0)"
    and imp: "import_module env (this_module @ ''.'' @ namespace)
                (register_modules (PREFIX env) namespace (PProxy proxy) st0)
              = (Inr override_vars, st2)"
    and ret: "load env namespace module st = (Inr r, st')"
  shows "deprecated_attrs st' namespace = None \<and> r = PProxy proxy"
proof -
  obtain names where names: "py_iter (override_all override_vars) = Inr names"
    using init imp ret by (cases "py_iter (override_all override_vars)") (auto simp: load_def)
  obtain x st3 where exp: "export_loop namespace proxy override_vars names st2 = (x, st3)"
    by (cases "export_loop namespace proxy override_vars names st2")
  have x: "x = Inr ()"
    using init imp ret names exp by (cases x) (auto simp: load_def)
  let ?entries = "case deprecated_attrs st3 namespace of None \<Rightarrow> [] | Some l \<Rightarrow> l"
  let ?st4 = "st3\<lparr>deprecated_attrs := (deprecated_attrs st3)(namespace := None)\<rparr>"
  obtain y st5 where dep: "deprecation_loop env namespace proxy ?entries ?st4 = (y, st5)"
    by (cases "deprecation_loop env namespace proxy ?entries ?st4")
  have "y = Inr () \<and> st' = st5 \<and> r = PProxy proxy"
    using init imp ret names exp x dep by (cases y) (auto simp: load_def Let_def)
  moreover have "deprecated_attrs st5 = deprecated_attrs ?st4"
    using dep by (rule deprecated_attrs_deprecation_loop)
  ultimately show ?thesis by simp
qed

theorem load_drains_registry_witness:
  "deprecated_attrs
     (snd (good_unit (register_modules [''pgi.repository'', ''gi.repository''] ''Gtk'' (PProxy 0)
             (snd (OverridesProxyModule_init (example_env good_unit (Found True))
                     ''GtkProxyModule'' gtk_module initial_state))))) ''Gtk''
     = Some [(''BAR'', ''Gtk.Baz'')]
 \<and> fst (load (example_env good_unit (Found True)) ''Gtk'' gtk_module initial_state) = Inr (PProxy 0)
 \<and> deprecated_attrs
     (snd (load (example_env good_unit (Found True)) ''Gtk'' gtk_module initial_state)) ''Gtk''
     = None"
proof -
  let ?env = "example_env good_unit (Found True)"
  let ?init = "OverridesProxyModule_init ?env (''Gtk'' @ ''ProxyModule'') gtk_module initial_state"
  let ?st1 = "register_modules (PREFIX ?env) ''Gtk'' (PProxy 0) (snd ?init)"
  let ?load = "load ?env ''Gtk'' gtk_module initial_state"
  have init: "?init = (Inr 0, snd ?init)"
    by (simp add: OverridesProxyModule_init_def example_defs)
  have imp: "import_module ?env (this_module @ ''.'' @ ''Gtk'') ?st1
             = (Inr [(''__all__'', PList [PStr ''BAR'']), (''BAR'', PInt 2)], snd (good_unit ?st1))"
    by (simp add: example_env_def good_unit_def)
  have "fst ?load = Inr (PProxy 0)"
    by (simp add: load_defs proxy_defs example_defs good_unit_def)
  then have ret: "?load = (Inr (PProxy 0), snd ?load)"
    by (simp add: prod_eq_iff)
  have drained: "deprecated_attrs (snd ?load) ''Gtk'' = None"
    using load_drains_registry [OF init imp ret] by (rule conjunct1)
  have before: "deprecated_attrs
     (snd (good_unit (register_modules [''pgi.repository'', ''gi.repository''] ''Gtk'' (PProxy 0)
             (snd (OverridesProxyModule_init ?env ''GtkProxyModule'' gtk_module initial_state)))))
       ''Gtk'' = Some [(''BAR'', ''Gtk.Baz'')]"
    by (simp add: good_unit_def deprecated_attr_def OverridesProxyModule_init_def example_defs)
  from before \<open>fst ?load = Inr (PProxy 0)\<close> drained show ?thesis
    by (intro conjI)
qed

lemma type_dict_instance_store:
  "type_dict (proxies (instance_store pid name v st) pid') = type_dict (proxies st pid')"
  by (simp add: instance_store_def update_proxy_def)

lemma export_loop_unresolved:
  assumes "type_dict (proxies st proxy) = []"
    and "\<forall>x \<in> set names. \<exists>s. x = PStr s"
    and "\<exists>s. PStr s \<in> set names \<and> map_of override_vars s = None"
  shows "fst (export_loop namespace proxy override_vars names st) = Inl (Exc AssertionError [])"
  using assms
proof (induction names arbitrary: st)
  case Nil
  then show ?case by simp
next
  case (Cons var names)
  from Cons.prems(2) obtain s where var: "var = PStr s" by auto
  show ?case
  proof (cases "map_of override_vars s")
    case None
    with var show ?thesis by (simp add: vars_get_def)
  next
    case (Some item)
    show ?thesis
    proof (cases "item = PNone")
      case True
      with var Some show ?thesis by (simp add: vars_get_def)
    next
      case False
      let ?st = "instance_store proxy s (fix_module namespace item) st"
      have fixed: "fix_module namespace item \<noteq> PNone"
        using False by (auto simp: fix_module_def split: pyval.splits option.splits)
      have step: "export_loop namespace proxy override_vars (var # names) st
                    = export_loop namespace proxy override_vars names ?st"
        using var Some False Cons.prems(1) by (simp add: vars_get_def setattr_proxy_def)
      have "type_dict (proxies ?st proxy) = []"
        using Cons.prems(1) by (simp add: type_dict_instance_store)
      moreover have "\<forall>x \<in> set names. \<exists>s. x = PStr s"
        using Cons.prems(2) by simp
      moreover have "\<exists>s. PStr s \<in> set names \<and> map_of override_vars s = None"
        using Cons.prems(3) var Some by auto
      ultimately show ?thesis
        using Cons.IH step by simp
    qed
  qed
qed

lemma deprecation_loop_unreadable:
  assumes "getattr_proxy env proxy attr st = (Inl e, st1)"
    and "isinstance e AttributeError"
  shows "deprecation_loop env namespace proxy ((attr, replacement) # rest) st
           = (Inl (Exc AssertionError
                     [PStr (attr @ '' was set deprecated but wasn't added to __all__'')]), st1)"
  using assms by simp

text \<open>
  C6 says that \<^verbatim>\<open>load\<close> raises \<^verbatim>\<open>AssertionError\<close> when a name of \<^verbatim>\<open>__all__\<close> does not resolve
  or a deprecated attribute is missing from the proxy. The first half holds
  (\<open>export_loop_unresolved\<close>), and so does the second when the attribute cannot be read
  at all (\<open>deprecation_loop_unreadable\<close>). But \<^verbatim>\<open>getattr(proxy, attr)\<close> also reads through
  \<^verbatim>\<open>__getattr__\<close>: for an attribute that was not added to \<^verbatim>\<open>__all__\<close> and that the
  introspected module has, the read succeeds, \<^verbatim>\<open>delattr(proxy, attr)\<close> finds nothing to delete
  and \<^verbatim>\<open>load\<close> raises \<^verbatim>\<open>AttributeError\<close> instead of the \<^verbatim>\<open>AssertionError\<close> whose message says
  "was set deprecated but wasn't added to __all__". The same happens when such an attribute
  is registered before one that is missing everywhere.
\<close>

theorem load_unexported_deprecated:
  "fst (load (example_env unexported_unit (Found True)) ''Gtk'' gtk_module initial_state)
     = Inl (Exc AttributeError [])
 \<and> fst (load (example_env unexported_then_missing_unit (Found True)) ''Gtk'' gtk_module
          initial_state)
     = Inl (Exc AttributeError [])"
  by (simp add: load_defs proxy_defs example_defs unexported_unit_def
      unexported_then_missing_unit_def)

section \<open>Results about proxies\<close>

text \<open>
  The invariant holds for a fresh proxy and is kept by every attribute operation, by both
  loops of \<^verbatim>\<open>load\<close>, and so by \<^verbatim>\<open>load\<close> itself when the override unit left the proxy's
  type alone.
\<close>

lemma proxy_inv_lookup:
  assumes "proxy_inv p" and "map_of (type_dict p) k = Some d"
  shows "d_attr d = k \<and> map_of (inst_dict p) k = None"
proof -
  from assms(2) have "(k, d) \<in> set (type_dict p)" by (rule map_of_SomeD)
  with assms(1) show ?thesis by (auto simp: proxy_inv_def list_all_iff)
qed

lemma proxy_inv_fresh: "type_dict p = [] \<Longrightarrow> proxy_inv p"
  by (simp add: proxy_inv_def)

lemma proxy_inv_type_delete:
  "proxy_inv p \<Longrightarrow> proxy_inv (p\<lparr>type_dict := AList.delete k (type_dict p)\<rparr>)"
  by (auto simp: proxy_inv_def list_all_iff AList.delete_eq)

lemma proxy_inv_inst_delete:
  "proxy_inv p \<Longrightarrow> proxy_inv (p\<lparr>inst_dict := AList.delete k (inst_dict p)\<rparr>)"
  by (auto simp: proxy_inv_def list_all_iff delete_conv')

lemma proxy_inv_inst_update:
  assumes "proxy_inv p" and "map_of (type_dict p) k = None"
  shows "proxy_inv (p\<lparr>inst_dict := AList.update k v (inst_dict p)\<rparr>)"
proof -
  have "k' \<noteq> k" if "(k', d) \<in> set (type_dict p)" for k' d
    using that assms(2) by (auto simp: map_of_eq_None_iff image_iff)
  with assms(1) show ?thesis
    by (auto simp: proxy_inv_def list_all_iff update_conv')
qed

lemma in_set_update:
  "(a, b) \<in> set (AList.update k v al) \<Longrightarrow> (a, b) = (k, v) \<or> (a, b) \<in> set al"
  by (induction al) (auto split: if_splits)

lemma proxy_inv_type_update:
  assumes "proxy_inv p" and "d_attr d = k" and "map_of (inst_dict p) k = None"
  shows "proxy_inv (p\<lparr>type_dict := AList.update k d (type_dict p)\<rparr>)"
  using assms by (auto simp: proxy_inv_def list_all_iff dest!: in_set_update)

lemma proxy_inv_update_proxy_other:
  "pid' \<noteq> pid \<Longrightarrow> proxies (update_proxy pid f st) pid' = proxies st pid'"
  by (simp add: update_proxy_def)

lemma proxy_inv_getattr_proxy:
  "getattr_proxy env pid name st = (r, st') \<Longrightarrow> proxies st' = proxies st"
  by (auto simp: getattr_proxy_def OverridesProxyModule_getattr_def lookup_normal_def
      DeprecatedAttribute_get_def warn_def Let_def split: option.splits sum.splits prod.splits)

lemma proxy_inv_setattr_proxy:
  assumes "proxy_inv (proxies st pid)" and "setattr_proxy pid name v st = (Inr u, st')"
  shows "proxy_inv (proxies st' pid)"
proof (cases "map_of (type_dict (proxies st pid)) name")
  case None
  with assms show ?thesis
    by (auto simp: setattr_proxy_def instance_store_def update_proxy_def
        intro: proxy_inv_inst_update)
next
  case (Some d)
  with assms(1) have d: "d_attr d = name" by (auto dest: proxy_inv_lookup)
  let ?p = "(proxies st pid)\<lparr>type_dict := AList.delete name (type_dict (proxies st pid))\<rparr>"
  have "proxy_inv ?p" using assms(1) by (rule proxy_inv_type_delete)
  moreover have "map_of (type_dict ?p) name = None" by (simp add: delete_conv')
  ultimately have "proxy_inv (?p\<lparr>inst_dict := AList.update name v (inst_dict ?p)\<rparr>)"
    by (rule proxy_inv_inst_update)
  moreover have "st' = instance_store pid name v
                         (update_proxy pid (\<lambda>p. p\<lparr>type_dict := AList.delete name (type_dict p)\<rparr>) st)"
    using assms(2) Some d
    by (auto simp: setattr_proxy_def DeprecatedAttribute_set_def type_delattr_def
        split: if_splits)
  ultimately show ?thesis by (simp add: instance_store_def update_proxy_def)
qed

lemma proxy_inv_delattr_proxy:
  assumes "proxy_inv (proxies st pid)" and "delattr_proxy pid name st = (Inr u, st')"
  shows "proxy_inv (proxies st' pid) \<and> map_of (inst_dict (proxies st' pid)) name = None"
proof (cases "map_of (type_dict (proxies st pid)) name")
  case None
  with assms(2) have "st' = update_proxy pid (\<lambda>p. p\<lparr>inst_dict := AList.delete name (inst_dict p)\<rparr>) st"
    by (auto simp: delattr_proxy_def instance_delete_def split: if_splits)
  with assms(1) show ?thesis
    by (simp add: update_proxy_def proxy_inv_inst_delete delete_conv')
next
  case (Some d)
  with assms(1) have d: "d_attr d = name \<and> map_of (inst_dict (proxies st pid)) name = None"
    by (rule proxy_inv_lookup)
  with assms(2) Some
  have "st' = update_proxy pid (\<lambda>p. p\<lparr>type_dict := AList.delete name (type_dict p)\<rparr>) st"
    by (auto simp: delattr_proxy_def DeprecatedAttribute_delete_def type_delattr_def
        split: if_splits)
  with assms(1) d show ?thesis
    by (simp add: update_proxy_def proxy_inv_type_delete)
qed

lemma proxy_inv_export_loop:
  assumes "proxy_inv (proxies st pid)"
    and "export_loop namespace pid override_vars names st = (Inr u, st')"
  shows "proxy_inv (proxies st' pid)"
  using assms
proof (induction names arbitrary: st)
  case Nil
  then show ?case by simp
next
  case (Cons var names)
  from Cons.prems(2) obtain name item st1
    where var: "var = PStr name"
      and set: "setattr_proxy pid name (fix_module namespace item) st = (Inr (), st1)"
      and rest: "export_loop namespace pid override_vars names st1 = (Inr u, st')"
    by (auto split: sum.splits if_splits pyval.splits prod.splits)
  from Cons.prems(1) set have "proxy_inv (proxies st1 pid)" by (rule proxy_inv_setattr_proxy)
  then show ?case using rest by (rule Cons.IH)
qed

lemma proxy_inv_deprecation_loop:
  assumes "proxy_inv (proxies st pid)"
    and "deprecation_loop env namespace pid entries st = (Inr u, st')"
  shows "proxy_inv (proxies st' pid)"
  using assms
proof (induction entries arbitrary: st)
  case Nil
  then show ?case by simp
next
  case (Cons entry entries)
  obtain attr replacement where entry: "entry = (attr, replacement)" by (cases entry)
  from Cons.prems(2) entry obtain val st1 st2
    where get: "getattr_proxy env pid attr st = (Inr val, st1)"
      and del: "delattr_proxy pid attr st1 = (Inr (), st2)"
      and rest: "deprecation_loop env namespace pid entries
                   (type_setattr pid attr (DeprecatedAttribute_init namespace attr val replacement) st2)
                 = (Inr u, st')"
    by (auto split: sum.splits if_splits prod.splits)
  from get have "proxies st1 = proxies st" by (rule proxy_inv_getattr_proxy)
  with Cons.prems(1) have "proxy_inv (proxies st1 pid)" by simp
  from this del have inv2: "proxy_inv (proxies st2 pid)"
    and gone: "map_of (inst_dict (proxies st2 pid)) attr = None"
    by (auto dest: proxy_inv_delattr_proxy)
  have "proxy_inv (proxies (type_setattr pid attr
           (DeprecatedAttribute_init namespace attr val replacement) st2) pid)"
    using inv2 gone
    by (simp add: type_setattr_def update_proxy_def proxy_inv_type_update
        DeprecatedAttribute_init_def)
  then show ?case using rest by (rule Cons.IH)
qed

lemma proxies_register_modules [simp]:
  "proxies (register_modules ps ns obj st) = proxies st"
  by (induction ps arbitrary: st) simp_all

lemma proxy_inv_init:
  assumes "OverridesProxyModule_init env tname module st = (Inr proxy, st0)"
  shows "proxy_inv (proxies st0 proxy)"
  using assms
  by (auto simp: OverridesProxyModule_init_def Let_def proxy_inv_def
      split: sum.splits pyval.splits)

lemma load_proxy_inv:
  assumes init: "OverridesProxyModule_init env (namespace @ ''ProxyModule'') module st = (Inr proxy, st0)"
    and imp: "import_module env (this_module @ ''.'' @ namespace)
                (register_modules (PREFIX env) namespace (PProxy proxy) st0)
              = (Inr override_vars, st2)"
    and kept: "proxy_inv (proxies st2 proxy)"
    and ret: "load env namespace module st = (Inr r, st')"
  shows "proxy_inv (proxies st' proxy)"
proof -
  obtain names where names: "py_iter (override_all override_vars) = Inr names"
    using init imp ret by (cases "py_iter (override_all override_vars)") (auto simp: load_def)
  obtain x st3 where exp: "export_loop namespace proxy override_vars names st2 = (x, st3)"
    by (cases "export_loop namespace proxy override_vars names st2")
  have x: "x = Inr ()"
    using init imp ret names exp by (cases x) (auto simp: load_def)
  let ?entries = "case deprecated_attrs st3 namespace of None \<Rightarrow> [] | Some l \<Rightarrow> l"
  let ?st4 = "st3\<lparr>deprecated_attrs := (deprecated_attrs st3)(namespace := None)\<rparr>"
  obtain y st5 where dep: "deprecation_loop env namespace proxy ?entries ?st4 = (y, st5)"
    by (cases "deprecation_loop env namespace proxy ?entries ?st4")
  have y: "y = Inr () \<and> st' = st5"
    using init imp ret names exp x dep by (cases y) (auto simp: load_def Let_def)
  have "proxy_inv (proxies st3 proxy)"
    using kept exp x by (auto intro: proxy_inv_export_loop)
  then have inv4: "proxy_inv (proxies ?st4 proxy)" by simp
  from dep y have "deprecation_loop env namespace proxy ?entries ?st4 = (Inr (), st')" by simp
  with inv4 show ?thesis by (rule proxy_inv_deprecation_loop)
qed

text \<open>
  C5: let a \<^verbatim>\<open>_DeprecatedAttribute\<close> be installed under \<open>attr\<close> on the type of a proxy that
  is in the shape \<^verbatim>\<open>load\<close> keeps it in. Reading \<open>attr\<close> through the proxy returns the
  frozen value and issues exactly one warning, the descriptor's. Writing \<open>attr\<close>
  succeeds, removes the descriptor from the type and stores the value in the instance, and
  reading \<open>attr\<close> afterwards returns the new value and leaves the state as it is (no
  warning). Deleting \<open>attr\<close> succeeds and removes the descriptor from the type; reading
  \<open>attr\<close> afterwards is answered by the introspected module, with its value or with its
  failure, provided \<open>attr\<close> is not a name that the classes of the proxy define and the
  proxy holds its wrapped module.
\<close>

theorem deprecated_attribute_protocol:
  assumes inv: "proxy_inv (proxies st pid)"
    and inst: "map_of (type_dict (proxies st pid)) attr = Some d"
  shows "getattr_proxy env pid attr st
           = (Inr (d_value d),
              st\<lparr>warnings_log := warnings_log st @ [Warning (d_warning d) PyGIDeprecationWarning 2]\<rparr>)
       \<and> fst (setattr_proxy pid attr v st) = Inr ()
       \<and> map_of (type_dict (proxies (snd (setattr_proxy pid attr v st)) pid)) attr = None
       \<and> map_of (inst_dict (proxies (snd (setattr_proxy pid attr v st)) pid)) attr = Some v
       \<and> getattr_proxy env pid attr (snd (setattr_proxy pid attr v st))
           = (Inr v, snd (setattr_proxy pid attr v st))
       \<and> fst (delattr_proxy pid attr st) = Inr ()
       \<and> map_of (type_dict (proxies (snd (delattr_proxy pid attr st)) pid)) attr = None
       \<and> (map_of (class_attrs env) attr = None
            \<and> map_of (inst_dict (proxies st pid)) ''_introspection_module'' = Some m
          \<longrightarrow> getattr_proxy env pid attr (snd (delattr_proxy pid attr st))
                = (module_getattr env m attr, snd (delattr_proxy pid attr st)))"
proof -
  let ?td = "\<lambda>p. p\<lparr>type_dict := AList.delete attr (type_dict p)\<rparr>"
  from inv inst have name: "d_attr d = attr"
    and none: "map_of (inst_dict (proxies st pid)) attr = None"
    by (auto dest: proxy_inv_lookup)
  have del: "type_delattr pid attr st = (Inr (), update_proxy pid ?td st)"
    using inst by (simp add: type_delattr_def dict_contains_def)
  have read: "getattr_proxy env pid attr st
           = (Inr (d_value d),
              st\<lparr>warnings_log := warnings_log st @ [Warning (d_warning d) PyGIDeprecationWarning 2]\<rparr>)"
    using inst by (simp add: getattr_proxy_def lookup_normal_def DeprecatedAttribute_get_def warn_def)
  have set: "setattr_proxy pid attr v st = (Inr (), instance_store pid attr v (update_proxy pid ?td st))"
    using inst name del by (simp add: setattr_proxy_def DeprecatedAttribute_set_def)
  have set_type: "map_of (type_dict (proxies (instance_store pid attr v (update_proxy pid ?td st)) pid)) attr = None"
    by (simp add: instance_store_def update_proxy_def delete_conv')
  have set_inst: "map_of (inst_dict (proxies (instance_store pid attr v (update_proxy pid ?td st)) pid)) attr = Some v"
    by (simp add: instance_store_def update_proxy_def update_conv')
  have set_read: "getattr_proxy env pid attr (instance_store pid attr v (update_proxy pid ?td st))
           = (Inr v, instance_store pid attr v (update_proxy pid ?td st))"
    using set_type set_inst by (simp add: getattr_proxy_def lookup_normal_def)
  have delete: "delattr_proxy pid attr st = (Inr (), update_proxy pid ?td st)"
    using inst name del by (simp add: delattr_proxy_def DeprecatedAttribute_delete_def)
  have del_type: "map_of (type_dict (proxies (update_proxy pid ?td st) pid)) attr = None"
    by (simp add: update_proxy_def delete_conv')
  have fall: "getattr_proxy env pid attr (update_proxy pid ?td st)
                = (module_getattr env m attr, update_proxy pid ?td st)"
    if cls: "map_of (class_attrs env) attr = None"
      and wrapped: "map_of (inst_dict (proxies st pid)) ''_introspection_module'' = Some m"
  proof -
    have plain: "map_of (type_dict (proxies st pid)) ''_introspection_module'' = None"
    proof (cases "map_of (type_dict (proxies st pid)) ''_introspection_module''")
      case None
      then show ?thesis .
    next
      case (Some d')
      with inv have "map_of (inst_dict (proxies st pid)) ''_introspection_module'' = None"
        by (auto dest: proxy_inv_lookup)
      with wrapped show ?thesis by simp
    qed
    have miss: "lookup_normal env pid attr (update_proxy pid ?td st) = None"
      using none cls by (simp add: lookup_normal_def update_proxy_def delete_conv')
    have other: "attr \<noteq> ''_introspection_module''"
      using none wrapped by auto
    have found: "lookup_normal env pid ''_introspection_module'' (update_proxy pid ?td st)
                   = Some (Inr m, update_proxy pid ?td st)"
      using wrapped plain other
      by (simp add: lookup_normal_def update_proxy_def delete_conv')
    show ?thesis
      by (simp add: getattr_proxy_def miss OverridesProxyModule_getattr_def found)
  qed
  show ?thesis
    using read set set_type set_inst set_read delete del_type fall by simp
qed

lemma loaded_proxy:
  "proxies loaded_state 0
     = \<lparr>type_name = ''GtkProxyModule'',
        type_dict = [(''BAR'', DeprecatedAttribute_init ''Gtk'' ''BAR'' (PInt 2) ''Gtk.Baz'')],
        inst_dict = [(''__name__'', PStr ''Gtk''), (''__doc__'', PNone),
                     (''_introspection_module'', gtk_module)]\<rparr>"
  by (simp add: loaded_state_def load_defs proxy_defs example_defs good_unit_def)

theorem deprecated_attribute_protocol_witness:
  "getattr_proxy (example_env good_unit (Found True)) 0 ''BAR'' loaded_state
     = (Inr (PInt 2),
        loaded_state\<lparr>warnings_log := warnings_log loaded_state
           @ [Warning ''Gtk.BAR is deprecated; use Gtk.Baz instead'' PyGIDeprecationWarning 2]\<rparr>)
 \<and> getattr_proxy (example_env good_unit (Found True)) 0 ''BAR''
       (snd (setattr_proxy 0 ''BAR'' (PInt 3) loaded_state))
     = (Inr (PInt 3), snd (setattr_proxy 0 ''BAR'' (PInt 3) loaded_state))
 \<and> getattr_proxy (example_env good_unit (Found True)) 0 ''BAR''
       (snd (delattr_proxy 0 ''BAR'' loaded_state))
     = (Inl (Exc AttributeError []), snd (delattr_proxy 0 ''BAR'' loaded_state))"
proof -
  let ?env = "example_env good_unit (Found True)"
  let ?d = "DeprecatedAttribute_init ''Gtk'' ''BAR'' (PInt 2) ''Gtk.Baz''"
  have inv: "proxy_inv (proxies loaded_state 0)"
    by (simp add: proxy_inv_def loaded_proxy DeprecatedAttribute_init_def gtk_module_def)
  have inst: "map_of (type_dict (proxies loaded_state 0)) ''BAR'' = Some ?d"
    by (simp add: loaded_proxy)
  have fall: "map_of (class_attrs ?env) ''BAR'' = None
      \<and> map_of (inst_dict (proxies loaded_state 0)) ''_introspection_module'' = Some gtk_module"
    by (simp add: loaded_proxy example_env_def)
  have absent: "module_getattr ?env gtk_module ''BAR'' = Inl (Exc AttributeError [])"
    by (simp add: example_env_def example_getattr_def)
  have frozen: "d_value ?d = PInt 2"
    and wording: "d_warning ?d = ''Gtk.BAR is deprecated; use Gtk.Baz instead''"
    by (simp_all add: DeprecatedAttribute_init_def)
  from deprecated_attribute_protocol [OF inv inst, of ?env "PInt 3" gtk_module] fall
  show ?thesis
    unfolding absent frozen wording by blast
qed

lemma set_dir_class:
  "set (dir_class env p) = fst ` set (type_dict p) \<union> fst ` set (class_attrs env)"
  by (simp add: dir_class_def)

text \<open>
  C8: for a proxy whose wrapped module can be read, \<^verbatim>\<open>__dir__\<close> returns a sorted list
  without duplicates whose elements are exactly the names of \<^verbatim>\<open>dir(self.__class__)\<close>, the
  keys of the instance's \<^verbatim>\<open>__dict__\<close> and the names of \<^verbatim>\<open>dir\<close> of the introspected module.
\<close>

theorem proxy_dir_union:
  assumes wrapped: "getattr_proxy env pid ''_introspection_module'' st = (Inr m, st')"
  shows "\<exists>names. OverridesProxyModule_dir env pid st = (Inr names, st')
           \<and> set names = set (dir_class env (proxies st pid))
                          \<union> fst ` set (inst_dict (proxies st pid))
                          \<union> set (module_dir env m)
           \<and> distinct names \<and> sorted names"
proof -
  let ?all = "dir_class env (proxies st pid) @ map fst (inst_dict (proxies st pid)) @ module_dir env m"
  have "OverridesProxyModule_dir env pid st = (Inr (sort (remdups ?all)), st')"
    using wrapped by (simp add: OverridesProxyModule_dir_def Let_def)
  moreover have "set (sort (remdups ?all)) = set (dir_class env (proxies st pid))
                          \<union> fst ` set (inst_dict (proxies st pid))
                          \<union> set (module_dir env m)"
    by auto
  moreover have "distinct (sort (remdups ?all))" by simp
  moreover have "sorted (sort (remdups ?all))" by simp
  ultimately show ?thesis by blast
qed

theorem proxy_dir_union_witness:
  "\<exists>names. OverridesProxyModule_dir (example_env good_unit (Found True)) 0 loaded_state
              = (Inr names, loaded_state)
     \<and> set names = {''BAR'', ''FOO'', ''__doc__'', ''__name__'', ''__repr__'',
                     ''_introspection_module''}
     \<and> distinct names \<and> sorted names"
proof -
  let ?env = "example_env good_unit (Found True)"
  have wrapped: "getattr_proxy ?env 0 ''_introspection_module'' loaded_state
                   = (Inr gtk_module, loaded_state)"
    by (simp add: getattr_proxy_def lookup_normal_def loaded_proxy)
  have names: "set (dir_class ?env (proxies loaded_state 0))
                 \<union> fst ` set (inst_dict (proxies loaded_state 0))
                 \<union> set (module_dir ?env gtk_module)
               = {''BAR'', ''FOO'', ''__doc__'', ''__name__'', ''__repr__'',
                  ''_introspection_module''}"
    by (auto simp: set_dir_class loaded_proxy example_env_def)
  from proxy_dir_union [OF wrapped] show ?thesis
    unfolding names .
qed

end
